theory Spec2Isabelle
  imports Complex_Main "HOL-Library.Multiset" "HOL-Library.Sublist"
begin

section \<open>Python strings\<close>

text \<open>
  A Python \<open>str\<close> is modelled as a \<open>string\<close>, one \<open>char\<close> per code point, for the
  code points below 256 (ASCII and Latin-1). On these code points
  \<^item> \<open>str.isspace\<close>, which \<open>str.strip()\<close>, \<open>str.split()\<close> and the regular expression
    class \<open>\s\<close> all use, holds for 9 to 13, 28 to 32, 133 and 160;
  \<^item> \<open>\d\<close> matches the ASCII digits only;
  \<^item> \<open>str.lower()\<close> maps A to Z and the Latin-1 capitals (192 to 222 without 215) 32
    code points up, and \<open>re.IGNORECASE\<close> compares lower-cased characters.
\<close>

definition isspace :: "char \<Rightarrow> bool" where
  "isspace c = (let n = (of_char c :: nat) in
     (9 \<le> n \<and> n \<le> 13) \<or> (28 \<le> n \<and> n \<le> 32) \<or> n = 133 \<or> n = 160)"

definition isdigit :: "char \<Rightarrow> bool" where
  "isdigit c = (let n = (of_char c :: nat) in 48 \<le> n \<and> n \<le> 57)"

definition lower_char :: "char \<Rightarrow> char" where
  "lower_char c = (let n = (of_char c :: nat) in
     if (65 \<le> n \<and> n \<le> 90) \<or> (192 \<le> n \<and> n \<le> 222 \<and> n \<noteq> 215)
     then char_of (n + 32) else c)"

definition lower :: "string \<Rightarrow> string" where
  "lower s = map lower_char s"

text \<open>\<open>s.strip()\<close>: leading and trailing whitespace removed.\<close>

definition lstrip :: "string \<Rightarrow> string" where
  "lstrip s = dropWhile isspace s"

definition rstrip :: "string \<Rightarrow> string" where
  "rstrip s = rev (dropWhile isspace (rev s))"

definition strip :: "string \<Rightarrow> string" where
  "strip s = rstrip (lstrip s)"

text \<open>
  \<open>s.split()\<close>: the maximal runs of non-whitespace characters, in order. The second
  argument is the word being read, reversed.
\<close>

fun split_ws :: "string \<Rightarrow> string \<Rightarrow> string list" where
  "split_ws cur [] = (if cur = [] then [] else [rev cur])"
| "split_ws cur (c # cs) =
     (if isspace c then (if cur = [] then split_ws [] cs else rev cur # split_ws [] cs)
      else split_ws (c # cur) cs)"

text \<open>\<open>' '.join(ws)\<close>.\<close>

fun join_sp :: "string list \<Rightarrow> string" where
  "join_sp [] = []"
| "join_sp [w] = w"
| "join_sp (w # v # ws) = w @ CHR '' '' # join_sp (v # ws)"

text \<open>\<open>s.split('\n')\<close>: the pieces between line feeds, empty pieces kept.\<close>

fun split_nl :: "string \<Rightarrow> string \<Rightarrow> string list" where
  "split_nl cur [] = [rev cur]"
| "split_nl cur (c # cs) =
     (if c = CHR 0x0A then rev cur # split_nl [] cs else split_nl (c # cur) cs)"

text \<open>\<open>sub in s\<close>.\<close>

fun contains :: "string \<Rightarrow> string \<Rightarrow> bool" where
  "contains sub [] = (sub = [])"
| "contains sub (c # cs) = (take (length sub) (c # cs) = sub \<or> contains sub cs)"

text \<open>
  \<open>s.split(sep, 1)\<close> for a separator that occurs in \<open>s\<close>: the text before and after
  its first occurrence; \<open>None\<close> when it does not occur.
\<close>

fun split_first :: "string \<Rightarrow> string \<Rightarrow> (string \<times> string) option" where
  "split_first sep [] = (if sep = [] then Some ([], []) else None)"
| "split_first sep (c # cs) =
     (if take (length sep) (c # cs) = sep then Some ([], drop (length sep) (c # cs))
      else map_option (\<lambda>(a, b). (c # a, b)) (split_first sep cs))"

text \<open>\<open>int(s)\<close> for a string of ASCII digits (leading zeros allowed).\<close>

definition digit_val :: "char \<Rightarrow> int" where
  "digit_val c = int (of_char c) - 48"

definition int_of_digits :: "string \<Rightarrow> int" where
  "int_of_digits s = foldl (\<lambda>a c. 10 * a + digit_val c) 0 s"

section \<open>The regular expressions of the program\<close>

text \<open>
  The patterns of the program are sequences of literals, repetitions \<open>*\<close> and \<open>+\<close>
  of a character class, capture groups around one repetition, and \<open>$\<close>. The matcher
  below is the backtracking matcher of Python's \<open>re\<close> on such sequences: every item
  offers its ways to match in the order \<open>re\<close> tries them (a greedy repetition offers
  the longest run first), and the first way for which the rest of the pattern matches
  is taken. The flag says whether \<open>re.IGNORECASE\<close> is set.
\<close>

text \<open>
  The classes \<open>\s\<close>, \<open>\d\<close>, the dot (anything but a line feed) and \<open>[^x]\<close>
  for one character \<open>x\<close>.
\<close>

datatype cls = Space | Digit | Dot | Except char

fun cls_ok :: "cls \<Rightarrow> char \<Rightarrow> bool" where
  "cls_ok Space c = isspace c"
| "cls_ok Digit c = isdigit c"
| "cls_ok Dot c = (c \<noteq> CHR 0x0A)"
| "cls_ok (Except x) c = (c \<noteq> x)"

datatype item = Lit string | Star cls | Plus cls | Grp item | Dollar

fun lit_match :: "bool \<Rightarrow> string \<Rightarrow> string \<Rightarrow> (string \<times> string) list" where
  "lit_match ic [] s = [([], s)]"
| "lit_match ic (p # ps) [] = []"
| "lit_match ic (p # ps) (c # cs) =
     (if (if ic then lower_char p = lower_char c else p = c)
      then map (\<lambda>(t, r). (c # t, r)) (lit_match ic ps cs) else [])"

text \<open>The ways a greedy repetition of a class can match a prefix, longest first.\<close>

fun splits :: "cls \<Rightarrow> string \<Rightarrow> (string \<times> string) list" where
  "splits k [] = [([], [])]"
| "splits k (c # cs) =
     (if cls_ok k c then map (\<lambda>(t, r). (c # t, r)) (splits k cs) @ [([], c # cs)]
      else [([], c # cs)])"

text \<open>
  Without \<open>re.MULTILINE\<close>, \<open>$\<close> matches at the end of the string and just before a
  line feed that ends the string.
\<close>

fun alts :: "bool \<Rightarrow> item \<Rightarrow> string \<Rightarrow> (string \<times> string) list" where
  "alts ic (Lit l) s = lit_match ic l s"
| "alts ic (Star k) s = splits k s"
| "alts ic (Plus k) s = filter (\<lambda>(t, r). t \<noteq> []) (splits k s)"
| "alts ic (Grp i) s = alts ic i s"
| "alts ic Dollar s = (if s = [] \<or> s = [CHR 0x0A] then [([], s)] else [])"

fun first_some :: "('a \<Rightarrow> 'b option) \<Rightarrow> 'a list \<Rightarrow> 'b option" where
  "first_some f [] = None"
| "first_some f (x # xs) = (case f x of Some y \<Rightarrow> Some y | None \<Rightarrow> first_some f xs)"

fun is_grp :: "item \<Rightarrow> bool" where
  "is_grp (Grp i) = True"
| "is_grp (Lit l) = False"
| "is_grp (Star k) = False"
| "is_grp (Plus k) = False"
| "is_grp Dollar = False"

text \<open>
  \<open>rmatch ic pat s\<close>: the match of \<open>pat\<close> at the start of \<open>s\<close>, as the texts of its
  groups and the unmatched rest of \<open>s\<close>; \<open>None\<close> when there is none.
\<close>

primrec rmatch :: "bool \<Rightarrow> item list \<Rightarrow> string \<Rightarrow> (string list \<times> string) option" where
  "rmatch ic [] s = Some ([], s)"
| "rmatch ic (i # is) s =
     first_some (\<lambda>(t, r). case rmatch ic is r of
                    None \<Rightarrow> None
                  | Some (gs, r') \<Rightarrow> Some (if is_grp i then t # gs else gs, r'))
       (alts ic i s)"

text \<open>
  \<open>re.sub(pat, '', s)\<close>: scanning from the left, every match is deleted and the scan
  goes on after it; where there is no match (or an empty one, whose replacement by the
  empty string changes nothing) the character is kept.
\<close>

fun re_sub :: "bool \<Rightarrow> item list \<Rightarrow> string \<Rightarrow> string" where
  "re_sub ic pat [] = []"
| "re_sub ic pat (c # cs) =
     (case rmatch ic pat (c # cs) of
        None \<Rightarrow> c # re_sub ic pat cs
      | Some (gs, r) \<Rightarrow>
          if length r \<le> length cs then re_sub ic pat r else c # re_sub ic pat cs)"

section \<open>Title cleaning and parsing\<close>

definition youtube_pat :: "item list" where
  "youtube_pat = [Star Space, Lit ''-'', Star Space, Lit ''YouTube'', Star Dot, Dollar]"

definition pipe_pat :: "item list" where
  "pipe_pat = [Star Space, Lit ''|'', Star Dot, Dollar]"

definition paren :: "string \<Rightarrow> item list" where
  "paren w = [Lit ''('', Star (Except CHR '')''), Lit w, Star (Except CHR '')''), Lit '')'']"

definition brack :: "string \<Rightarrow> item list" where
  "brack w = [Lit ''['', Star (Except CHR '']''), Lit w, Star (Except CHR '']''), Lit '']'']"

definition paren_res :: "item list" where
  "paren_res = [Lit ''('', Star (Except CHR '')''), Plus Digit, Lit ''p'',
                Star (Except CHR '')''), Lit '')'']"

definition patterns :: "item list list" where
  "patterns =
     [paren ''official'', brack ''official'',
      paren ''audio'', brack ''audio'',
      paren ''video'', brack ''video'',
      paren ''lyric'', brack ''lyric'',
      paren ''live'', paren ''cover'',
      paren ''remix'', paren ''HD'',
      paren_res, brack ''HQ'']"

definition clean_title :: "string \<Rightarrow> string" where
  "clean_title title =
     (let title = re_sub True youtube_pat title;
          title = re_sub False pipe_pat title;
          title = fold (re_sub True) patterns title
      in join_sp (split_ws [] title))"

definition quoted_pat :: "item list" where
  "quoted_pat = [Lit [CHR 0x27], Grp (Plus (Except (CHR 0x27))), Lit [CHR 0x27],
                 Plus Space, Grp (Plus Dot)]"

text \<open>\<open>parse_song\<close> returns artist, song and the cleaned title.\<close>

definition parse_song :: "string \<Rightarrow> string \<times> string \<times> string" where
  "parse_song title =
     (let clean = clean_title title in
      case split_first '' - '' clean of
        Some (a, b) \<Rightarrow> (strip a, strip b, clean)
      | None \<Rightarrow>
          (case rmatch False quoted_pat clean of
             Some ([g1, g2], r) \<Rightarrow> (strip g2, strip g1, clean)
           | _ \<Rightarrow> ([], strip clean, clean)))"

text \<open>
  \<open>find_youtube_window\<close> takes what \<open>gw.getAllTitles()\<close> gave: a list of titles, or
  an exception, which the function swallows.
\<close>

datatype exn = Timeout | ConnectionError | JSONDecodeError | AttributeError
  | TypeError | KeyError | IndexError | OtherException string

definition find_youtube_window :: "exn + string list \<Rightarrow> string option" where
  "find_youtube_window titles =
     (case titles of
        Inl e \<Rightarrow> None
      | Inr ts \<Rightarrow> find (\<lambda>title. contains ''youtube'' (lower title) \<and> strip title \<noteq> []) ts)"

section \<open>The lyrics service\<close>

text \<open>
  What \<open>resp.json()\<close> returns is a Python value built from JSON. An object keeps its
  members in the order of the text; a key that occurs twice has the value of its last
  occurrence. Numbers are rationals (the values NaN and Infinity, which the parser also
  accepts, are left out).
\<close>

datatype json = JNull | JBool bool | JNum rat | JStr string
  | JArr "json list" | JObj "(string \<times> json) list"

text \<open>Python's truth value of such a value.\<close>

fun truthy :: "json \<Rightarrow> bool" where
  "truthy JNull = False"
| "truthy (JBool b) = b"
| "truthy (JNum n) = (n \<noteq> 0)"
| "truthy (JStr s) = (s \<noteq> [])"
| "truthy (JArr xs) = (xs \<noteq> [])"
| "truthy (JObj kvs) = (kvs \<noteq> [])"

text \<open>\<open>data.get(key)\<close>: only a dict has the method.\<close>

fun get_field :: "json \<Rightarrow> string \<Rightarrow> exn + json" where
  "get_field (JObj kvs) key = Inr (case map_of (rev kvs) key of None \<Rightarrow> JNull | Some v \<Rightarrow> v)"
| "get_field JNull key = Inl AttributeError"
| "get_field (JBool b) key = Inl AttributeError"
| "get_field (JNum n) key = Inl AttributeError"
| "get_field (JStr s) key = Inl AttributeError"
| "get_field (JArr xs) key = Inl AttributeError"

text \<open>\<open>results[0]\<close>.\<close>

fun first_item :: "json \<Rightarrow> exn + json" where
  "first_item (JArr []) = Inl IndexError"
| "first_item (JArr (x # xs)) = Inr x"
| "first_item (JStr []) = Inl IndexError"
| "first_item (JStr (c # cs)) = Inr (JStr [c])"
| "first_item (JObj kvs) = Inl KeyError"
| "first_item JNull = Inl TypeError"
| "first_item (JBool b) = Inl TypeError"
| "first_item (JNum n) = Inl TypeError"

text \<open>
  A request is a GET of one of the three URLs \<open>/api/get\<close>, \<open>/api/search\<close> and
  \<open>/api/get/{id}\<close>, with its query parameters in the order the program adds them. The
  identifier is kept as the value the program formats into the URL. A response has a
  status code and a body that is JSON or not.
\<close>

datatype endpoint = ApiGet | ApiSearch | ApiGetId json

datatype request = Request endpoint "(string \<times> string) list"

datatype payload = NotJson | Json json

datatype response = Response (status_code: int) (payload: payload)

text \<open>
  The environment of one call: the window titles, the HTTP layer and the clock.
  \<open>http env sent rq\<close> is what \<open>requests.get\<close> does on the request \<open>rq\<close> after the
  requests \<open>sent\<close> were made: it raises (timeout, connection error, anything else that
  is an \<open>Exception\<close>) or returns a response. \<open>clock env k\<close> is the \<open>k\<close>-th value
  \<open>time.time()\<close> returns in the call, counted from 0; Python's floats are modelled
  as rationals, without rounding.
\<close>

record env =
  window_titles :: "exn + string list"
  http :: "request list \<Rightarrow> request \<Rightarrow> exn + response"
  clock :: "nat \<Rightarrow> rat"

definition requests_get ::
  "env \<Rightarrow> request \<Rightarrow> request list \<Rightarrow> (exn + response) \<times> request list" where
  "requests_get env rq sent = (http env sent rq, sent @ [rq])"

definition resp_json :: "response \<Rightarrow> exn + json" where
  "resp_json resp = (case payload resp of NotJson \<Rightarrow> Inl JSONDecodeError | Json j \<Rightarrow> Inr j)"

text \<open>
  The test both lookups by \<open>/api/get\<close> make on their response: status 200, then
  \<open>data = resp.json()\<close>, then \<open>data.get('syncedLyrics')\<close> true, then
  \<open>return data['syncedLyrics']\<close>. \<open>Inr None\<close> is falling through.
\<close>

definition synced_lyrics :: "response \<Rightarrow> exn + json option" where
  "synced_lyrics resp =
     (if status_code resp = 200 then
        (case resp_json resp of
           Inl e \<Rightarrow> Inl e
         | Inr data \<Rightarrow>
             (case get_field data ''syncedLyrics'' of
                Inl e \<Rightarrow> Inl e
              | Inr v \<Rightarrow> if truthy v then Inr (Some v) else Inr None))
      else Inr None)"

definition exact_params :: "string \<Rightarrow> string \<Rightarrow> (string \<times> string) list" where
  "exact_params artist song =
     (if song \<noteq> [] then [(''track_name'', song)] else []) @
     (if artist \<noteq> [] then [(''artist_name'', artist)] else [])"

text \<open>The exact match, the first part of the \<open>try\<close> block of \<open>search_lrclib\<close>.\<close>

definition exact_lookup ::
  "env \<Rightarrow> string \<Rightarrow> string \<Rightarrow> request list \<Rightarrow> (exn + json option) \<times> request list" where
  "exact_lookup env artist song sent =
     (let params = exact_params artist song in
      if params \<noteq> [] then
        (case requests_get env (Request ApiGet params) sent of
           (Inl e, sent1) \<Rightarrow> (Inl e, sent1)
         | (Inr resp, sent1) \<Rightarrow> (synced_lyrics resp, sent1))
      else (Inr None, sent))"

definition queries :: "string \<Rightarrow> string \<Rightarrow> (string \<times> string) list list" where
  "queries artist song =
     (if artist \<noteq> [] \<and> song \<noteq> []
      then [[(''artist_name'', artist), (''track_name'', song)],
            [(''q'', artist @ '' '' @ song)]]
      else []) @
     (if song \<noteq> [] then [[(''q'', song)]] else [])"

text \<open>The body of the \<open>try\<close> inside the loop over the queries.\<close>

definition query_body ::
  "env \<Rightarrow> (string \<times> string) list \<Rightarrow> request list \<Rightarrow> (exn + json option) \<times> request list" where
  "query_body env query sent =
     (case requests_get env (Request ApiSearch query) sent of
        (Inl e, sent1) \<Rightarrow> (Inl e, sent1)
      | (Inr resp, sent1) \<Rightarrow>
          if status_code resp = 200 then
            (case resp_json resp of
               Inl e \<Rightarrow> (Inl e, sent1)
             | Inr results \<Rightarrow>
                 if truthy results then
                   (case first_item results of
                      Inl e \<Rightarrow> (Inl e, sent1)
                    | Inr cand \<Rightarrow>
                        (case get_field cand ''id'' of
                           Inl e \<Rightarrow> (Inl e, sent1)
                         | Inr result_id \<Rightarrow>
                             if truthy result_id then
                               (case requests_get env (Request (ApiGetId result_id) []) sent1 of
                                  (Inl e, sent2) \<Rightarrow> (Inl e, sent2)
                                | (Inr resp2, sent2) \<Rightarrow> (synced_lyrics resp2, sent2))
                             else (Inr None, sent1)))
                 else (Inr None, sent1))
          else (Inr None, sent1))"

text \<open>One turn of the loop: the bare \<open>except: continue\<close> swallows every exception.\<close>

definition try_query ::
  "env \<Rightarrow> (string \<times> string) list \<Rightarrow> request list \<Rightarrow> json option \<times> request list" where
  "try_query env query sent =
     (case query_body env query sent of
        (Inl e, sent1) \<Rightarrow> (None, sent1)
      | (Inr r, sent1) \<Rightarrow> (r, sent1))"

fun search_loop ::
  "env \<Rightarrow> (string \<times> string) list list \<Rightarrow> request list \<Rightarrow> json option \<times> request list" where
  "search_loop env [] sent = (None, sent)"
| "search_loop env (q # qs) sent =
     (case try_query env q sent of
        (Some v, sent1) \<Rightarrow> (Some v, sent1)
      | (None, sent1) \<Rightarrow> search_loop env qs sent1)"

text \<open>The \<open>try\<close> block of \<open>search_lrclib\<close>.\<close>

definition search_try ::
  "env \<Rightarrow> string \<Rightarrow> string \<Rightarrow> request list \<Rightarrow> (exn + json option) \<times> request list" where
  "search_try env artist song sent =
     (case exact_lookup env artist song sent of
        (Inl e, sent1) \<Rightarrow> (Inl e, sent1)
      | (Inr (Some v), sent1) \<Rightarrow> (Inr (Some v), sent1)
      | (Inr None, sent1) \<Rightarrow>
          (case search_loop env (queries artist song) sent1 of
             (r, sent2) \<Rightarrow> (Inr r, sent2)))"

text \<open>
  \<open>search_lrclib\<close> with its \<open>except Exception\<close>: the result is what the call returns
  (\<open>Inr\<close>) or raises (\<open>Inl\<close>), and the requests made so far.
\<close>

definition search_lrclib ::
  "env \<Rightarrow> string \<Rightarrow> string \<Rightarrow> request list \<Rightarrow> (exn + json option) \<times> request list" where
  "search_lrclib env artist song sent =
     (case search_try env artist song sent of
        (Inl e, sent1) \<Rightarrow> (Inr None, sent1)
      | (Inr r, sent1) \<Rightarrow> (Inr r, sent1))"

section \<open>Decoding LRC text\<close>

text \<open>
  A lyric line is the dict with the keys \<open>time\<close> and \<open>text\<close>. Times are rationals:
  \<open>int\<close> and the float arithmetic of \<open>parse_lrc\<close> are taken exactly, without the
  rounding of a float and without the limits Python puts on very long digit strings.
\<close>

record lyric =
  lyric_time :: rat
  lyric_text :: string

definition lrc_pat :: "item list" where
  "lrc_pat = [Lit ''['', Grp (Plus Digit), Lit '':'', Grp (Plus Digit), Lit ''.'',
              Grp (Plus Digit), Lit '']'', Grp (Star Dot)]"

text \<open>The body of the loop of \<open>parse_lrc\<close>: the entry a line adds, if any.\<close>

definition parse_line :: "string \<Rightarrow> lyric option" where
  "parse_line line =
     (case rmatch False lrc_pat (strip line) of
        Some ([g1, g2, g3, g4], r) \<Rightarrow>
          (let minutes = int_of_digits g1;
               seconds = int_of_digits g2;
               centis = int_of_digits g3;
               text = strip g4
           in if text \<noteq> []
              then Some \<lparr>lyric_time = of_int (minutes * 60 + seconds) + of_int centis / 100,
                         lyric_text = text\<rparr>
              else None)
      | _ \<Rightarrow> None)"

definition parse_lines :: "string list \<Rightarrow> lyric list" where
  "parse_lines ls =
     fold (\<lambda>line lyrics. case parse_line line of
                            Some entry \<Rightarrow> lyrics @ [entry]
                          | None \<Rightarrow> lyrics) ls []"

text \<open>
  \<open>parse_lrc\<close> takes what \<open>search_lrclib\<close> returned; only a string has \<open>split\<close>.
  \<open>sorted\<close> with a key is stable, as \<open>sort_key\<close> is.
\<close>

fun parse_lrc :: "json \<Rightarrow> exn + lyric list" where
  "parse_lrc (JStr lrc_text) = Inr (sort_key lyric_time (parse_lines (split_nl [] lrc_text)))"
| "parse_lrc JNull = Inl AttributeError"
| "parse_lrc (JBool b) = Inl AttributeError"
| "parse_lrc (JNum n) = Inl AttributeError"
| "parse_lrc (JArr xs) = Inl AttributeError"
| "parse_lrc (JObj kvs) = Inl AttributeError"

section \<open>The overlay\<close>

text \<open>
  The fields of \<open>LyricsOverlay\<close> that the synchronisation uses. A label is the text it
  shows; the label of the current line also has its colour. Setting a label and printing
  to the console are taken not to raise; what is printed is left out.
\<close>

record state =
  lyrics :: "lyric list"
  running :: bool
  start_time :: rat
  is_loading :: bool
  last_title :: "string option"
  current_song :: "string option"
  current_label :: "string \<times> string"
  next_label :: string
  title_label :: string

text \<open>
  The \<open>try\<close> block of \<open>load_song\<close>, entered with the flag set and \<open>load_start\<close>
  read. It returns or raises, with the state it leaves and the requests it made. The
  title bar shows a note sign and a blank before the first 50 characters of the cleaned
  title; the label holds these characters.
\<close>

definition load_song_try ::
  "env \<Rightarrow> rat \<Rightarrow> state \<Rightarrow> (exn + bool) \<times> state \<times> request list" where
  "load_song_try env load_start st =
     (let no_window = (Inr False, st\<lparr>current_label := (''No YouTube window'', ''red'')\<rparr>, [])
      in case find_youtube_window (window_titles env) of
        None \<Rightarrow> no_window
      | Some yt_title \<Rightarrow>
          if yt_title = [] then no_window
          else
            (case parse_song yt_title of
               (artist, song, full) \<Rightarrow>
                 (let st1 = st\<lparr>current_label := (''Loading...'', ''white''),
                                next_label := full\<rparr>
                  in case search_lrclib env artist song [] of
                    (Inl e, sent) \<Rightarrow> (Inl e, st1, sent)
                  | (Inr lrc, sent) \<Rightarrow>
                      if (case lrc of None \<Rightarrow> True | Some v \<Rightarrow> \<not> truthy v) then
                        (Inr False,
                         st1\<lparr>current_label := (''No lyrics found'', ''orange''),
                             next_label := []\<rparr>,
                         sent)
                      else
                        (case parse_lrc (case lrc of Some v \<Rightarrow> v | None \<Rightarrow> JNull) of
                           Inl e \<Rightarrow> (Inl e, st1, sent)
                         | Inr parsed \<Rightarrow>
                             (let st2 = st1\<lparr>lyrics := parsed\<rparr>;
                                  load_time = clock env 1 - load_start;
                                  st3 = st2\<lparr>start_time := clock env 2 - load_time\<rparr>;
                                  st4 = st3\<lparr>current_song := Some full,
                                             title_label := take 50 full\<rparr>
                              in (Inr True, st4, sent))))))"

text \<open>
  What a call of \<open>load_song\<close> does to the flag and to the network, in order.
\<close>

datatype event = SetLoading bool | HttpGet request

text \<open>
  \<open>load_song\<close>: the guard, the flag, the first clock value, the \<open>try\<close> block, and
  the \<open>finally\<close> that clears the flag whether the block returned or raised.
\<close>

definition load_song :: "env \<Rightarrow> state \<Rightarrow> (exn + bool) \<times> state \<times> event list" where
  "load_song env st =
     (if is_loading st then (Inr False, st, [])
      else
        (let st1 = st\<lparr>is_loading := True\<rparr>;
             load_start = clock env 0
         in case load_song_try env load_start st1 of
           (res, st2, sent) \<Rightarrow>
             (res, st2\<lparr>is_loading := False\<rparr>,
              SetLoading True # map HttpGet sent @ [SetLoading False])))"

definition check_title_change :: "env \<Rightarrow> state \<Rightarrow> bool \<times> state" where
  "check_title_change env st =
     (if is_loading st then (False, st)
      else
        (case find_youtube_window (window_titles env) of
           None \<Rightarrow> (False, st)
         | Some current \<Rightarrow>
             if current = [] then (False, st)
             else
               (case last_title st of
                  None \<Rightarrow> (False, st\<lparr>last_title := Some current\<rparr>)
                | Some old \<Rightarrow>
                    if current \<noteq> old then
                      (let old_clean = clean_title old;
                           new_clean = clean_title current
                       in if old_clean \<noteq> new_clean
                          then (True, st\<lparr>last_title := Some current\<rparr>)
                          else (False, st\<lparr>last_title := Some current\<rparr>))
                    else (False, st))))"

text \<open>
  The scan of \<open>update_loop\<close>: \<open>current_idx\<close> starts at 0 and every line whose time
  has been reached overwrites it with its index.
\<close>

definition scan_lyrics :: "lyric list \<Rightarrow> rat \<Rightarrow> nat" where
  "scan_lyrics ls elapsed =
     fold (\<lambda>(i, lyric) current_idx. if lyric_time lyric \<le> elapsed then i else current_idx)
       (enumerate 0 ls) 0"

text \<open>
  The index of the line the display shows, with the two guards of the loop: the list is
  not empty, and the index is inside the list. \<open>None\<close>: the labels are left alone.
\<close>

definition current_index :: "lyric list \<Rightarrow> rat \<Rightarrow> nat option" where
  "current_index ls elapsed =
     (if ls \<noteq> [] then
        (let current_idx = scan_lyrics ls elapsed
         in if current_idx < length ls then Some current_idx else None)
      else None)"

text \<open>The display part of one turn of \<open>update_loop\<close>, at clock value \<open>now\<close>.\<close>

definition update_display :: "rat \<Rightarrow> state \<Rightarrow> state" where
  "update_display now st =
     (case current_index (lyrics st) (now - start_time st) of
        None \<Rightarrow> st
      | Some current_idx \<Rightarrow>
          st\<lparr>current_label := (lyric_text (lyrics st ! current_idx), ''yellow''),
             next_label := (if current_idx + 1 < length (lyrics st)
                            then lyric_text (lyrics st ! (current_idx + 1)) else [])\<rparr>)"

section \<open>Initial state and sample environments\<close>

text \<open>The fields as \<open>__init__\<close> sets them.\<close>

definition init_state :: state where
  "init_state =
     \<lparr>lyrics = [], running = True, start_time = 0, is_loading = False,
      last_title = None, current_song = None,
      current_label = ([], ''yellow''), next_label = [], title_label = ''Lyrics''\<rparr>"

text \<open>An environment with the given window titles, no network and a clock at 0.\<close>

definition offline :: "string list \<Rightarrow> env" where
  "offline ts = \<lparr>window_titles = Inr ts, http = (\<lambda>sent rq. Inl ConnectionError),
                 clock = (\<lambda>k. 0)\<rparr>"

text \<open>The two lines of the decoding example of the specification.\<close>

definition two_lines :: "lyric list" where
  "two_lines = [\<lparr>lyric_time = 5, lyric_text = ''World''\<rparr>,
                \<lparr>lyric_time = 25 / 2, lyric_text = ''Hello''\<rparr>]"

text \<open>
  The window title and the LRC text of the end-to-end example of the specification, and
  an environment in which every request is answered with status 200 and an object whose
  \<open>syncedLyrics\<close> is the given value; the clock reads 100, 103 and 103.01.
\<close>

definition lrc_sample :: string where
  "lrc_sample = ''[00:00.00]Line one'' @ [CHR 0x0A] @ ''[00:03.00]Line two''"

definition serving :: "json \<Rightarrow> env" where
  "serving v =
     \<lparr>window_titles = Inr [''Song Title (Official Video) - YouTube''],
      http = (\<lambda>sent rq. Inr (Response 200 (Json (JObj [(''syncedLyrics'', v)])))),
      clock = (\<lambda>k. if k = 0 then 100 else if k = 1 then 103 else 10301 / 100)\<rparr>"

text \<open>A state with a song loaded.\<close>

definition loaded_state :: state where
  "loaded_state = init_state\<lparr>lyrics := two_lines, start_time := 7, current_song := Some ''Old''\<rparr>"

section \<open>The lookup strategies, as the specification words them\<close>

text \<open>
  The specification describes \<open>search_lrclib\<close> as an ordered list of strategies, each
  giving lyrics or nothing, run until the first gives lyrics. The definitions of this
  section follow those words; they are compared with the program further down.

  \<open>answer\<close>: the JSON body of a response with status 200, if the request got one.
\<close>

definition answer :: "env \<Rightarrow> request list \<Rightarrow> request \<Rightarrow> json option" where
  "answer env sent rq =
     (case http env sent rq of
        Inl e \<Rightarrow> None
      | Inr resp \<Rightarrow>
          (case payload resp of
             NotJson \<Rightarrow> None
           | Json j \<Rightarrow> if status_code resp = 200 then Some j else None))"

text \<open>The member of an object under a key, when it is there and true.\<close>

fun true_member :: "string \<Rightarrow> json \<Rightarrow> json option" where
  "true_member key (JObj kvs) =
     (case map_of (rev kvs) key of
        None \<Rightarrow> None
      | Some v \<Rightarrow> if truthy v then Some v else None)"
| "true_member key JNull = None"
| "true_member key (JBool b) = None"
| "true_member key (JNum n) = None"
| "true_member key (JStr s) = None"
| "true_member key (JArr xs) = None"

text \<open>The identifier of the first candidate of a list of candidates.\<close>

fun candidate_id :: "json \<Rightarrow> json option" where
  "candidate_id (JArr (cand # rest)) = true_member ''id'' cand"
| "candidate_id (JArr []) = None"
| "candidate_id JNull = None"
| "candidate_id (JBool b) = None"
| "candidate_id (JNum n) = None"
| "candidate_id (JStr s) = None"
| "candidate_id (JObj kvs) = None"

type_synonym strategy = "request list \<Rightarrow> json option \<times> request list"

definition exact_strategy :: "env \<Rightarrow> string \<Rightarrow> string \<Rightarrow> strategy" where
  "exact_strategy env artist song sent =
     (if exact_params artist song = [] then (None, sent)
      else (Option.bind (answer env sent (Request ApiGet (exact_params artist song)))
              (true_member ''syncedLyrics''),
            sent @ [Request ApiGet (exact_params artist song)]))"

definition search_strategy :: "env \<Rightarrow> (string \<times> string) list \<Rightarrow> strategy" where
  "search_strategy env query sent =
     (case Option.bind (answer env sent (Request ApiSearch query)) candidate_id of
        None \<Rightarrow> (None, sent @ [Request ApiSearch query])
      | Some i \<Rightarrow>
          (Option.bind
             (answer env (sent @ [Request ApiSearch query]) (Request (ApiGetId i) []))
             (true_member ''syncedLyrics''),
           sent @ [Request ApiSearch query, Request (ApiGetId i) []]))"

fun first_success :: "strategy list \<Rightarrow> strategy" where
  "first_success [] sent = (None, sent)"
| "first_success (f # fs) sent =
     (case f sent of
        (Some v, sent1) \<Rightarrow> (Some v, sent1)
      | (None, sent1) \<Rightarrow> first_success fs sent1)"

text \<open>
  The exact lookup raises nothing: no request is due, or the request is answered, and an
  answer with status 200 has a JSON object as its body.
\<close>

definition exact_answered :: "env \<Rightarrow> string \<Rightarrow> string \<Rightarrow> request list \<Rightarrow> bool" where
  "exact_answered env artist song sent =
     (exact_params artist song = [] \<or>
      (case http env sent (Request ApiGet (exact_params artist song)) of
         Inl e \<Rightarrow> False
       | Inr resp \<Rightarrow>
           status_code resp \<noteq> 200 \<or>
           (case payload resp of
              NotJson \<Rightarrow> False
            | Json JNull \<Rightarrow> False
            | Json (JBool b) \<Rightarrow> False
            | Json (JNum n) \<Rightarrow> False
            | Json (JStr s) \<Rightarrow> False
            | Json (JArr xs) \<Rightarrow> False
            | Json (JObj kvs) \<Rightarrow> True)))"


text \<open>
  A service that answers the exact lookup with status 404, a search with a list of one
  candidate whose \<open>id\<close> is the given value, and a lookup by identifier with the
  sample lyrics.
\<close>

definition candidates_only :: "json \<Rightarrow> env" where
  "candidates_only i =
     \<lparr>window_titles = Inr [],
      http = (\<lambda>sent rq. case rq of
                Request ApiGet ps \<Rightarrow> Inr (Response 404 NotJson)
              | Request ApiSearch ps \<Rightarrow> Inr (Response 200 (Json (JArr [JObj [(''id'', i)]])))
              | Request (ApiGetId j) ps \<Rightarrow>
                  Inr (Response 200 (Json (JObj [(''syncedLyrics'', JStr lrc_sample)])))),
      clock = (\<lambda>k. 0)\<rparr>"

section \<open>LRC lines, as the specification words them\<close>




section \<open>Detecting a change of song\<close>

lemma check_title_change_sampled:
  assumes "\<not> is_loading st"
    and "find_youtube_window (window_titles env) = Some cur"
    and "cur \<noteq> []"
    and "last_title st = Some old"
  shows "check_title_change env st =
           (cur \<noteq> old \<and> clean_title cur \<noteq> clean_title old,
            if cur \<noteq> old then st\<lparr>last_title := Some cur\<rparr> else st)"
  using assms by (auto simp: check_title_change_def Let_def)

lemma contains_nonempty: "contains sub s \<Longrightarrow> sub \<noteq> [] \<Longrightarrow> s \<noteq> []"
  by (cases s) auto

lemma find_youtube_window_nonempty:
  "find_youtube_window w = Some cur \<Longrightarrow> cur \<noteq> []"
  by (auto simp: find_youtube_window_def lower_def find_Some_iff
           split: sum.splits dest!: contains_nonempty)

text \<open>
  C2. When no load is in flight, a window title \<open>cur\<close> is sampled and a last raw title
  \<open>old\<close> is recorded, \<open>check_title_change\<close> returns true exactly when \<open>cur\<close> differs
  from \<open>old\<close> and their cleaned forms differ. Whenever the raw titles differ,
  \<open>last_title\<close> becomes \<open>cur\<close>, also when the cleaned forms agree, so that a later
  tick that samples \<open>cur\<close> again reports nothing. While a load is in flight, and when
  no window is found, it returns false and leaves the state alone.
\<close>

theorem check_title_change_reports:
  "(\<not> is_loading st \<and> find_youtube_window (window_titles env) = Some cur \<and>
    last_title st = Some old \<longrightarrow>
      (fst (check_title_change env st) \<longleftrightarrow>
         cur \<noteq> old \<and> clean_title cur \<noteq> clean_title old) \<and>
      (cur \<noteq> old \<longrightarrow> last_title (snd (check_title_change env st)) = Some cur) \<and>
      (\<forall>env'::env. find_youtube_window (window_titles env') = Some cur \<longrightarrow>
         \<not> fst (check_title_change env' (snd (check_title_change env st))))) \<and>
   (is_loading st \<longrightarrow> check_title_change env st = (False, st)) \<and>
   (find_youtube_window (window_titles env) = None \<longrightarrow>
      check_title_change env st = (False, st))"
proof (intro conjI impI)
  assume h: "\<not> is_loading st \<and> find_youtube_window (window_titles env) = Some cur \<and>
    last_title st = Some old"
  then have ne: "cur \<noteq> []"
    using find_youtube_window_nonempty by blast
  have eq: "check_title_change env st =
      (cur \<noteq> old \<and> clean_title cur \<noteq> clean_title old,
       if cur \<noteq> old then st\<lparr>last_title := Some cur\<rparr> else st)"
    using h ne by (intro check_title_change_sampled) auto
  show "fst (check_title_change env st) \<longleftrightarrow>
         cur \<noteq> old \<and> clean_title cur \<noteq> clean_title old"
    by (simp add: eq)
  show "last_title (snd (check_title_change env st)) = Some cur" if "cur \<noteq> old"
    using that by (simp add: eq)
  show "\<forall>env'::env. find_youtube_window (window_titles env') = Some cur \<longrightarrow>
         \<not> fst (check_title_change env' (snd (check_title_change env st)))"
  proof (intro allI impI)
    fix env' :: env
    assume w: "find_youtube_window (window_titles env') = Some cur"
    let ?st = "snd (check_title_change env st)"
    have "\<not> is_loading ?st" and "last_title ?st = Some cur"
      using h by (auto simp: eq)
    then have "check_title_change env' ?st = (False, ?st)"
      using check_title_change_sampled [OF _ w ne, of ?st cur] by simp
    then show "\<not> fst (check_title_change env' ?st)" by simp
  qed
next
  assume "is_loading st"
  then show "check_title_change env st = (False, st)"
    by (simp add: check_title_change_def)
next
  assume "find_youtube_window (window_titles env) = None"
  then show "check_title_change env st = (False, st)"
    by (simp add: check_title_change_def)
qed

theorem check_title_change_reports_witness:
  "\<not> is_loading (init_state\<lparr>last_title := Some ''Song - YouTube''\<rparr>) \<and>
   find_youtube_window (window_titles (offline [''Song (Official Video) - YouTube'']))
     = Some ''Song (Official Video) - YouTube'' \<and>
   \<not> fst (check_title_change (offline [''Song (Official Video) - YouTube''])
            (init_state\<lparr>last_title := Some ''Song - YouTube''\<rparr>)) \<and>
   last_title (snd (check_title_change (offline [''Song (Official Video) - YouTube''])
            (init_state\<lparr>last_title := Some ''Song - YouTube''\<rparr>)))
     = Some ''Song (Official Video) - YouTube''"
proof -
  let ?st = "init_state\<lparr>last_title := Some ''Song - YouTube''\<rparr>"
  let ?env = "offline [''Song (Official Video) - YouTube'']"
  have a: "\<not> is_loading ?st"
    by (simp add: init_state_def)
  have b: "find_youtube_window (window_titles ?env) = Some ''Song (Official Video) - YouTube''"
    by code_simp
  have c: "last_title ?st = Some ''Song - YouTube''"
    by simp
  have d: "clean_title ''Song (Official Video) - YouTube'' = clean_title ''Song - YouTube''"
    by code_simp
  show ?thesis
    using check_title_change_reports [of ?st ?env "''Song (Official Video) - YouTube''"
        "''Song - YouTube''"] a b c d
    by simp
qed

section \<open>The line on display\<close>


lemma scan_lyrics_snoc:
  "scan_lyrics (ls @ [l]) e = (if lyric_time l \<le> e then length ls else scan_lyrics ls e)"
  by (simp add: scan_lyrics_def enumerate_append_eq)

lemma scan_lyrics_none:
  "\<forall>j<length ls. \<not> lyric_time (ls ! j) \<le> e \<Longrightarrow> scan_lyrics ls e = 0"
proof (induction ls rule: rev_induct)
  case Nil
  show ?case by (simp add: scan_lyrics_def)
next
  case (snoc l ls)
  have "\<not> lyric_time l \<le> e"
    using snoc.prems [rule_format, of "length ls"] by simp
  moreover have "\<forall>j<length ls. \<not> lyric_time (ls ! j) \<le> e"
  proof (intro allI impI)
    fix j assume "j < length ls"
    then show "\<not> lyric_time (ls ! j) \<le> e"
      using snoc.prems [rule_format, of j] by (simp add: nth_append)
  qed
  ultimately show ?case
    using snoc.IH by (simp add: scan_lyrics_snoc)
qed

lemma scan_lyrics_last:
  "j < length ls \<Longrightarrow> lyric_time (ls ! j) \<le> e \<Longrightarrow>
     scan_lyrics ls e < length ls \<and> lyric_time (ls ! scan_lyrics ls e) \<le> e \<and>
     j \<le> scan_lyrics ls e"
proof (induction ls rule: rev_induct)
  case Nil
  then show ?case by simp
next
  case (snoc l ls)
  show ?case
  proof (cases "lyric_time l \<le> e")
    case True
    then show ?thesis using snoc.prems by (simp add: scan_lyrics_snoc)
  next
    case False
    then have "j < length ls"
      using snoc.prems by (cases "j = length ls") auto
    moreover from this have "lyric_time (ls ! j) \<le> e"
      using snoc.prems by (simp add: nth_append)
    ultimately have "scan_lyrics ls e < length ls \<and> lyric_time (ls ! scan_lyrics ls e) \<le> e \<and>
       j \<le> scan_lyrics ls e"
      by (rule snoc.IH)
    then show ?thesis using False by (simp add: scan_lyrics_snoc nth_append)
  qed
qed

text \<open>
  C1 (as amended). \<open>current_index\<close> gives no index for the empty list. For a list that
  is not empty and sorted ascending by time it always gives an index of the list: index
  0, the first line, while the elapsed time is strictly below the first line's time (the
  scan starts at 0 and no line overwrites it), and otherwise the index of the last line
  whose time has been reached, which is a line of greatest time among those reached; this
  is the last index once the elapsed time has reached the last line's time.
\<close>

theorem current_index_scan:
  "current_index [] e = None \<and>
   (ls \<noteq> [] \<and> sorted (map lyric_time ls) \<longrightarrow>
      (\<exists>i. current_index ls e = Some i \<and> i < length ls \<and>
         (e < lyric_time (hd ls) \<longrightarrow> i = 0) \<and>
         (lyric_time (hd ls) \<le> e \<longrightarrow>
            lyric_time (ls ! i) \<le> e \<and>
            (\<forall>j<length ls. lyric_time (ls ! j) \<le> e \<longrightarrow>
               j \<le> i \<and> lyric_time (ls ! j) \<le> lyric_time (ls ! i))) \<and>
         (lyric_time (last ls) \<le> e \<longrightarrow> i = length ls - 1)))"
proof (intro conjI impI)
  show "current_index [] e = None"
    by (simp add: current_index_def)
next
  assume h: "ls \<noteq> [] \<and> sorted (map lyric_time ls)"
  let ?i = "scan_lyrics ls e"
  have srt: "lyric_time (ls ! a) \<le> lyric_time (ls ! b)" if "a \<le> b" "b < length ls" for a b
    using h that sorted_nth_mono [of "map lyric_time ls" a b] by simp
  have hd0: "hd ls = ls ! 0" and pos: "0 < length ls"
    using h by (simp_all add: hd_conv_nth)
  have lt: "?i < length ls"
  proof (cases "\<exists>j<length ls. lyric_time (ls ! j) \<le> e")
    case True
    then show ?thesis using scan_lyrics_last by blast
  next
    case False
    then show ?thesis using scan_lyrics_none [of ls e] pos by simp
  qed
  have before: "?i = 0" if "e < lyric_time (hd ls)"
  proof (rule scan_lyrics_none, intro allI impI)
    fix j assume "j < length ls"
    then have "lyric_time (hd ls) \<le> lyric_time (ls ! j)"
      using srt [of 0 j] hd0 by simp
    then show "\<not> lyric_time (ls ! j) \<le> e" using that by simp
  qed
  have reached: "lyric_time (ls ! ?i) \<le> e \<and>
      (\<forall>j<length ls. lyric_time (ls ! j) \<le> e \<longrightarrow>
         j \<le> ?i \<and> lyric_time (ls ! j) \<le> lyric_time (ls ! ?i))"
    if "lyric_time (hd ls) \<le> e"
  proof -
    have "lyric_time (ls ! ?i) \<le> e"
      using scan_lyrics_last [of 0 ls e] that pos hd0 by simp
    moreover have "j \<le> ?i \<and> lyric_time (ls ! j) \<le> lyric_time (ls ! ?i)"
      if "j < length ls" "lyric_time (ls ! j) \<le> e" for j
      using scan_lyrics_last [OF that] srt [of j ?i] lt by simp
    ultimately show ?thesis by blast
  qed
  have final: "?i = length ls - 1" if "lyric_time (last ls) \<le> e"
  proof -
    have "length ls - 1 \<le> ?i"
      using scan_lyrics_last [of "length ls - 1" ls e] that h pos
      by (simp add: last_conv_nth)
    then show ?thesis using lt by linarith
  qed
  have "current_index ls e = Some ?i"
    using h lt by (simp add: current_index_def)
  then show "\<exists>i. current_index ls e = Some i \<and> i < length ls \<and>
         (e < lyric_time (hd ls) \<longrightarrow> i = 0) \<and>
         (lyric_time (hd ls) \<le> e \<longrightarrow>
            lyric_time (ls ! i) \<le> e \<and>
            (\<forall>j<length ls. lyric_time (ls ! j) \<le> e \<longrightarrow>
               j \<le> i \<and> lyric_time (ls ! j) \<le> lyric_time (ls ! i))) \<and>
         (lyric_time (last ls) \<le> e \<longrightarrow> i = length ls - 1)"
    using lt before reached final by blast
qed

theorem current_index_scan_witness:
  "two_lines \<noteq> [] \<and> sorted (map lyric_time two_lines) \<and>
   current_index two_lines 0 = Some 0 \<and> current_index two_lines 6 = Some 0 \<and>
   current_index two_lines 13 = Some 1"
proof -
  have a: "two_lines \<noteq> [] \<and> sorted (map lyric_time two_lines)"
    by (simp add: two_lines_def)
  have v: "lyric_time (hd two_lines) = 5" "lyric_time (last two_lines) = 25 / 2"
    "length two_lines = 2" "lyric_time (two_lines ! 0) = 5" "lyric_time (two_lines ! 1) = 25 / 2"
    by (simp_all add: two_lines_def)
  have "current_index two_lines 0 = Some 0"
    using current_index_scan [of 0 two_lines] a v by auto
  moreover have "current_index two_lines 13 = Some 1"
    using current_index_scan [of 13 two_lines] a v by auto
  moreover have "current_index two_lines 6 = Some 0"
  proof -
    obtain i where i: "current_index two_lines 6 = Some i" "i < 2"
      "lyric_time (two_lines ! i) \<le> 6"
      using current_index_scan [of 6 two_lines] a v by auto
    then have "i = 0" using v by (cases "i = 1") auto
    then show ?thesis using i by simp
  qed
  ultimately show ?thesis using a by simp
qed

text \<open>
  The claim as written asks for no index before the first line's time. With the two lines
  at 5 and 12.5 seconds and an elapsed time of 0, the scan gives index 0 and the display
  shows the first line.
\<close>

theorem current_index_before_first_counterexample:
  "two_lines \<noteq> [] \<and> sorted (map lyric_time two_lines) \<and>
   0 < lyric_time (hd two_lines) \<and> current_index two_lines 0 = Some 0 \<and>
   current_label (update_display 0 (init_state\<lparr>lyrics := two_lines\<rparr>)) = (''World'', ''yellow'')"
  by (simp add: two_lines_def current_index_def scan_lyrics_def update_display_def init_state_def enumerate_eq_zip)

section \<open>Loading a song\<close>

lemma load_song_try_flag:
  "load_song_try env t0 st = (res, st', sent) \<Longrightarrow> is_loading st' = is_loading st"
  by (auto simp: load_song_try_def Let_def split: option.splits sum.splits prod.splits if_splits)

lemma load_song_try_frame:
  "load_song_try env t0 st = (res, st', sent) \<Longrightarrow> res \<noteq> Inr True \<Longrightarrow>
     lyrics st' = lyrics st \<and> start_time st' = start_time st \<and> current_song st' = current_song st"
  by (auto simp: load_song_try_def Let_def split: option.splits sum.splits prod.splits if_splits)

lemma load_song_try_success:
  "load_song_try env t0 st = (Inr True, st', sent) \<Longrightarrow>
     \<exists>title artist song full lrc parsed.
       find_youtube_window (window_titles env) = Some title \<and>
       parse_song title = (artist, song, full) \<and>
       search_lrclib env artist song [] = (Inr (Some lrc), sent) \<and>
       parse_lrc lrc = Inr parsed \<and>
       lyrics st' = parsed \<and>
       start_time st' = clock env 2 - (clock env 1 - t0) \<and>
       current_song st' = Some full"
  by (auto simp: load_song_try_def Let_def split: option.splits sum.splits prod.splits if_splits)

lemma load_song_try_not_found:
  "find_youtube_window (window_titles env) = Some title \<Longrightarrow>
   parse_song title = (artist, song, full) \<Longrightarrow>
   fst (search_lrclib env artist song []) = Inr None \<Longrightarrow>
   fst (load_song_try env t0 st) = Inr False"
  by (auto simp: load_song_try_def Let_def split: option.splits sum.splits prod.splits if_splits)

lemma load_song_unfold:
  "\<not> is_loading st \<Longrightarrow>
   load_song env st =
     (fst (load_song_try env (clock env 0) (st\<lparr>is_loading := True\<rparr>)),
      (fst (snd (load_song_try env (clock env 0) (st\<lparr>is_loading := True\<rparr>))))\<lparr>is_loading := False\<rparr>,
      SetLoading True #
        map HttpGet (snd (snd (load_song_try env (clock env 0) (st\<lparr>is_loading := True\<rparr>)))) @
        [SetLoading False])"
  by (simp add: load_song_def Let_def split: prod.splits)

lemma load_song_loading: "is_loading st \<Longrightarrow> load_song env st = (Inr False, st, [])"
  by (simp add: load_song_def)



text \<open>
  C3. On every successful load, \<open>load_song\<close> sets \<open>start_time\<close> to the second clock
  value read at completion minus the load time, which is the first clock value read at
  completion minus the clock value read when the load began. The elapsed time measured
  from \<open>start_time\<close> at any later moment is therefore the time since the load began,
  less the gap between the two clock values read at completion: when that gap is between
  0 and a tolerance, the two differ by at most the tolerance, however long the load took.
\<close>

theorem load_song_start_time:
  "fst (load_song env st) = Inr True \<longrightarrow>
     start_time (fst (snd (load_song env st))) = clock env 2 - (clock env 1 - clock env 0) \<and>
     (\<forall>now. now - start_time (fst (snd (load_song env st))) =
              (now - clock env 0) - (clock env 2 - clock env 1)) \<and>
     (\<forall>tol. 0 \<le> clock env 2 - clock env 1 \<and> clock env 2 - clock env 1 \<le> tol \<longrightarrow>
        (\<forall>now. \<bar>(now - start_time (fst (snd (load_song env st)))) - (now - clock env 0)\<bar> \<le> tol))"
proof
  assume ok: "fst (load_song env st) = Inr True"
  have nl: "\<not> is_loading st"
    using ok by (auto simp: load_song_def)
  let ?r = "load_song_try env (clock env 0) (st\<lparr>is_loading := True\<rparr>)"
  have "fst ?r = Inr True"
    using ok nl by (simp add: load_song_unfold)
  then have "?r = (Inr True, fst (snd ?r), snd (snd ?r))"
    by (metis prod.collapse)
  from load_song_try_success [OF this]
  have "start_time (fst (snd ?r)) = clock env 2 - (clock env 1 - clock env 0)"
    by blast
  then have s: "start_time (fst (snd (load_song env st))) = clock env 2 - (clock env 1 - clock env 0)"
    using nl by (simp add: load_song_unfold)
  show "start_time (fst (snd (load_song env st))) = clock env 2 - (clock env 1 - clock env 0) \<and>
     (\<forall>now. now - start_time (fst (snd (load_song env st))) =
              (now - clock env 0) - (clock env 2 - clock env 1)) \<and>
     (\<forall>tol. 0 \<le> clock env 2 - clock env 1 \<and> clock env 2 - clock env 1 \<le> tol \<longrightarrow>
        (\<forall>now. \<bar>(now - start_time (fst (snd (load_song env st)))) - (now - clock env 0)\<bar> \<le> tol))"
    unfolding s by (auto simp: algebra_simps)
qed

theorem load_song_start_time_witness:
  "fst (load_song (serving (JStr lrc_sample)) init_state) = Inr True \<and>
   start_time (fst (snd (load_song (serving (JStr lrc_sample)) init_state))) = 10001 / 100 \<and>
   \<bar>(110 - start_time (fst (snd (load_song (serving (JStr lrc_sample)) init_state)))) - (110 - 100)\<bar>
     \<le> 1 / 100"
proof -
  have a: "fst (load_song (serving (JStr lrc_sample)) init_state) = Inr True"
    by code_simp
  have c: "clock (serving (JStr lrc_sample)) 2 -
        (clock (serving (JStr lrc_sample)) 1 - clock (serving (JStr lrc_sample)) 0) = 10001 / 100"
    by (simp add: serving_def)
  from load_song_start_time [of "serving (JStr lrc_sample)" init_state] a
  have "start_time (fst (snd (load_song (serving (JStr lrc_sample)) init_state))) =
      clock (serving (JStr lrc_sample)) 2 -
        (clock (serving (JStr lrc_sample)) 1 - clock (serving (JStr lrc_sample)) 0)"
    by blast
  then have "start_time (fst (snd (load_song (serving (JStr lrc_sample)) init_state))) = 10001 / 100"
    unfolding c .
  then show ?thesis using a by simp
qed

text \<open>
  C9. When the fetch yields nothing, \<open>load_song\<close> returns false; whenever it does not
  return true (it returns false or raises), \<open>lyrics\<close>, \<open>start_time\<close> and
  \<open>current_song\<close> keep their values; when it returns true, all three are new: the
  decoded lines of the fetched text, the compensated start time and the cleaned title.
\<close>

theorem load_song_all_or_nothing:
  "(\<not> is_loading st \<and> find_youtube_window (window_titles env) = Some title \<and>
    parse_song title = (artist, song, full) \<and>
    fst (search_lrclib env artist song []) = Inr None \<longrightarrow>
      fst (load_song env st) = Inr False) \<and>
   (fst (load_song env st) \<noteq> Inr True \<longrightarrow>
      lyrics (fst (snd (load_song env st))) = lyrics st \<and>
      start_time (fst (snd (load_song env st))) = start_time st \<and>
      current_song (fst (snd (load_song env st))) = current_song st) \<and>
   (fst (load_song env st) = Inr True \<longrightarrow>
      (\<exists>title artist song full lrc parsed.
         find_youtube_window (window_titles env) = Some title \<and>
         parse_song title = (artist, song, full) \<and>
         fst (search_lrclib env artist song []) = Inr (Some lrc) \<and>
         parse_lrc lrc = Inr parsed \<and>
         lyrics (fst (snd (load_song env st))) = parsed \<and>
         start_time (fst (snd (load_song env st))) =
           clock env 2 - (clock env 1 - clock env 0) \<and>
         current_song (fst (snd (load_song env st))) = Some full))"
proof (cases "is_loading st")
  case True
  then show ?thesis by (simp add: load_song_loading)
next
  case False
  let ?r = "load_song_try env (clock env 0) (st\<lparr>is_loading := True\<rparr>)"
  have r: "?r = (fst ?r, fst (snd ?r), snd (snd ?r))"
    by simp
  have a: "fst ?r = Inr False"
    if "find_youtube_window (window_titles env) = Some title"
      "parse_song title = (artist, song, full)"
      "fst (search_lrclib env artist song []) = Inr None"
    using load_song_try_not_found [OF that] .
  have b: "lyrics (fst (snd ?r)) = lyrics st \<and> start_time (fst (snd ?r)) = start_time st \<and>
      current_song (fst (snd ?r)) = current_song st" if "fst ?r \<noteq> Inr True"
    using load_song_try_frame [OF r that] by simp
  have c: "\<exists>title artist song full lrc parsed.
         find_youtube_window (window_titles env) = Some title \<and>
         parse_song title = (artist, song, full) \<and>
         fst (search_lrclib env artist song []) = Inr (Some lrc) \<and>
         parse_lrc lrc = Inr parsed \<and>
         lyrics (fst (snd ?r)) = parsed \<and>
         start_time (fst (snd ?r)) = clock env 2 - (clock env 1 - clock env 0) \<and>
         current_song (fst (snd ?r)) = Some full" if "fst ?r = Inr True"
  proof -
    have "?r = (Inr True, fst (snd ?r), snd (snd ?r))"
      using that r by metis
    from load_song_try_success [OF this] show ?thesis
      by (metis fst_conv)
  qed
  show ?thesis
    using False a b c by (simp add: load_song_unfold)
qed

theorem load_song_all_or_nothing_witness:
  "\<not> is_loading loaded_state \<and>
   find_youtube_window (window_titles (offline [''Song - YouTube''])) = Some ''Song - YouTube'' \<and>
   parse_song ''Song - YouTube'' = ([], ''Song'', ''Song'') \<and>
   fst (search_lrclib (offline [''Song - YouTube'']) [] ''Song'' []) = Inr None \<and>
   fst (load_song (offline [''Song - YouTube'']) loaded_state) = Inr False \<and>
   lyrics (fst (snd (load_song (offline [''Song - YouTube'']) loaded_state))) = two_lines \<and>
   start_time (fst (snd (load_song (offline [''Song - YouTube'']) loaded_state))) = 7 \<and>
   current_song (fst (snd (load_song (offline [''Song - YouTube'']) loaded_state))) = Some ''Old'' \<and>
   fst (load_song (serving (JStr lrc_sample)) loaded_state) = Inr True \<and>
   lyrics (fst (snd (load_song (serving (JStr lrc_sample)) loaded_state))) =
     [\<lparr>lyric_time = 0, lyric_text = ''Line one''\<rparr>, \<lparr>lyric_time = 3, lyric_text = ''Line two''\<rparr>] \<and>
   start_time (fst (snd (load_song (serving (JStr lrc_sample)) loaded_state))) = 10001 / 100 \<and>
   current_song (fst (snd (load_song (serving (JStr lrc_sample)) loaded_state))) = Some ''Song Title''"
proof -
  let ?off = "offline [''Song - YouTube'']"
  let ?on = "serving (JStr lrc_sample)"
  have a: "\<not> is_loading loaded_state"
    by (simp add: loaded_state_def init_state_def)
  have b: "find_youtube_window (window_titles ?off) = Some ''Song - YouTube''"
    by code_simp
  have c: "parse_song ''Song - YouTube'' = ([], ''Song'', ''Song'')"
    by code_simp
  have d: "fst (search_lrclib ?off [] ''Song'' []) = Inr None"
    by code_simp
  have e: "lyrics loaded_state = two_lines" "start_time loaded_state = 7"
    "current_song loaded_state = Some ''Old''"
    by (simp_all add: loaded_state_def)
  have f: "fst (load_song ?off loaded_state) = Inr False
      \<and> lyrics (fst (snd (load_song ?off loaded_state))) = two_lines
      \<and> start_time (fst (snd (load_song ?off loaded_state))) = 7
      \<and> current_song (fst (snd (load_song ?off loaded_state))) = Some ''Old''"
    using load_song_all_or_nothing [of loaded_state ?off "''Song - YouTube''" "[]" "''Song''" "''Song''"]
      a b c d e by simp
  have g: "fst (load_song ?on loaded_state) = Inr True"
    by code_simp
  have h: "find_youtube_window (window_titles ?on) = Some ''Song Title (Official Video) - YouTube''"
    by code_simp
  have i: "parse_song ''Song Title (Official Video) - YouTube'' = ([], ''Song Title'', ''Song Title'')"
    by code_simp
  have j: "fst (search_lrclib ?on [] ''Song Title'' []) = Inr (Some (JStr lrc_sample))"
    by code_simp
  have k: "parse_lrc (JStr lrc_sample) =
      Inr [\<lparr>lyric_time = 0, lyric_text = ''Line one''\<rparr>, \<lparr>lyric_time = 3, lyric_text = ''Line two''\<rparr>]"
    by code_simp
  have l: "clock ?on 2 - (clock ?on 1 - clock ?on 0) = 10001 / 100"
    by (simp add: serving_def)
  have m: "lyrics (fst (snd (load_song ?on loaded_state))) =
       [\<lparr>lyric_time = 0, lyric_text = ''Line one''\<rparr>, \<lparr>lyric_time = 3, lyric_text = ''Line two''\<rparr>]
     \<and> start_time (fst (snd (load_song ?on loaded_state))) = 10001 / 100
     \<and> current_song (fst (snd (load_song ?on loaded_state))) = Some ''Song Title''"
    using load_song_all_or_nothing [of loaded_state ?on] g h i j k l by auto
  show ?thesis
    using a b c d f g m by simp
qed

section \<open>The lookup never raises\<close>


lemma synced_lyrics_member:
  "(case synced_lyrics resp of Inl e \<Rightarrow> None | Inr r \<Rightarrow> r) =
     Option.bind (case payload resp of NotJson \<Rightarrow> None
                  | Json j \<Rightarrow> if status_code resp = 200 then Some j else None)
       (true_member ''syncedLyrics'')"
  by (cases resp; cases "payload resp"; cases "case payload resp of Json j \<Rightarrow> j | _ \<Rightarrow> JNull")
     (auto simp: synced_lyrics_def resp_json_def split: if_splits option.splits)











section \<open>The order of the lookup strategies\<close>

lemma answer_member:
  "(case http env sent rq of
      Inl e \<Rightarrow> None
    | Inr resp \<Rightarrow> (case synced_lyrics resp of Inl e \<Rightarrow> None | Inr r \<Rightarrow> r)) =
   Option.bind (answer env sent rq) (true_member ''syncedLyrics'')"
proof (cases "http env sent rq")
  case (Inl e)
  then show ?thesis by (simp add: answer_def)
next
  case (Inr resp)
  then show ?thesis
    by (simp add: answer_def synced_lyrics_member split: payload.splits)
qed

lemma lookup_strategy:
  "(case (case requests_get env rq sent of
            (Inl e, sent1) \<Rightarrow> (Inl e, sent1)
          | (Inr resp, sent1) \<Rightarrow> (synced_lyrics resp, sent1)) of
      (Inl e, sent1) \<Rightarrow> (None, sent1)
    | (Inr r, sent1) \<Rightarrow> (r, sent1)) =
   (Option.bind (answer env sent rq) (true_member ''syncedLyrics''), sent @ [rq])"
  unfolding answer_member [symmetric]
  by (simp add: requests_get_def split: sum.splits)

lemma candidate_chain:
  "(if truthy results then
      (case first_item results of
         Inl e \<Rightarrow> None
       | Inr cand \<Rightarrow>
           (case get_field cand ''id'' of
              Inl e \<Rightarrow> None
            | Inr result_id \<Rightarrow> if truthy result_id then Some result_id else None))
    else None) = candidate_id results"
proof (cases results)
  case (JArr xs)
  show ?thesis
  proof (cases xs)
    case Nil
    then show ?thesis using JArr by simp
  next
    case (Cons cand rest)
    then show ?thesis using JArr by (cases cand) (simp_all split: option.splits)
  qed
next
  case (JStr s)
  then show ?thesis by (cases s) simp_all
qed simp_all

lemma candidate_id_Some:
  assumes "candidate_id results = Some i"
  shows "\<exists>cand. truthy results \<and> first_item results = Inr cand \<and>
           get_field cand ''id'' = Inr i \<and> truthy i"
proof (cases results)
  case (JArr xs)
  show ?thesis
  proof (cases xs)
    case Nil
    then show ?thesis using JArr assms by simp
  next
    case (Cons cand rest)
    then have "true_member ''id'' cand = Some i"
      using JArr assms by simp
    then have "get_field cand ''id'' = Inr i \<and> truthy i"
      by (cases cand) (simp_all split: option.splits if_splits)
    then show ?thesis using JArr Cons by simp
  qed
qed (use assms in simp_all)

lemma try_query_strategy: "try_query env q sent = search_strategy env q sent"
proof (cases "http env sent (Request ApiSearch q)")
  case (Inl e)
  then show ?thesis
    by (simp add: try_query_def query_body_def search_strategy_def requests_get_def answer_def)
next
  case (Inr resp)
  show ?thesis
  proof (cases "status_code resp = 200")
    case False
    then show ?thesis using Inr
      by (simp add: try_query_def query_body_def search_strategy_def requests_get_def
            answer_def split: payload.splits)
  next
    case True
    show ?thesis
    proof (cases "payload resp")
      case NotJson
      then show ?thesis using Inr True
        by (simp add: try_query_def query_body_def search_strategy_def requests_get_def
              answer_def resp_json_def)
    next
      case (Json results)
      have ans: "answer env sent (Request ApiSearch q) = Some results"
        using Inr True Json by (simp add: answer_def)
      have body: "query_body env q sent =
          (if truthy results then
             (case first_item results of
                Inl e \<Rightarrow> (Inl e, sent @ [Request ApiSearch q])
              | Inr cand \<Rightarrow>
                  (case get_field cand ''id'' of
                     Inl e \<Rightarrow> (Inl e, sent @ [Request ApiSearch q])
                   | Inr result_id \<Rightarrow>
                       if truthy result_id then
                         (case requests_get env (Request (ApiGetId result_id) [])
                                 (sent @ [Request ApiSearch q]) of
                            (Inl e, sent2) \<Rightarrow> (Inl e, sent2)
                          | (Inr resp2, sent2) \<Rightarrow> (synced_lyrics resp2, sent2))
                       else (Inr None, sent @ [Request ApiSearch q])))
           else (Inr None, sent @ [Request ApiSearch q]))"
        using Inr True Json by (simp add: query_body_def requests_get_def resp_json_def)
      show ?thesis
      proof (cases "candidate_id results")
        case None
        then have "try_query env q sent = (None, sent @ [Request ApiSearch q])"
          unfolding try_query_def body candidate_chain [of results, symmetric]
          by (simp split: if_splits sum.splits)
        then show ?thesis using None ans by (simp add: search_strategy_def)
      next
        case (Some i)
        from candidate_id_Some [OF Some] obtain cand where c:
          "truthy results" "first_item results = Inr cand"
          "get_field cand ''id'' = Inr i" "truthy i"
          by blast
        have "query_body env q sent =
            (case requests_get env (Request (ApiGetId i) []) (sent @ [Request ApiSearch q]) of
               (Inl e, sent2) \<Rightarrow> (Inl e, sent2)
             | (Inr resp2, sent2) \<Rightarrow> (synced_lyrics resp2, sent2))"
          unfolding body by (simp add: c)
        then have "try_query env q sent =
            (Option.bind (answer env (sent @ [Request ApiSearch q]) (Request (ApiGetId i) []))
               (true_member ''syncedLyrics''),
             (sent @ [Request ApiSearch q]) @ [Request (ApiGetId i) []])"
          unfolding try_query_def by (simp only: lookup_strategy)
        then show ?thesis using Some ans by (simp add: search_strategy_def)
      qed
    qed
  qed
qed

lemma search_loop_strategies:
  "search_loop env qs sent = first_success (map (search_strategy env) qs) sent"
  by (induction qs arbitrary: sent) (simp_all add: try_query_strategy split: prod.splits option.splits)

lemma exact_lookup_strategy:
  assumes "exact_answered env artist song sent"
  shows "exact_lookup env artist song sent =
           (Inr (fst (exact_strategy env artist song sent)),
            snd (exact_strategy env artist song sent))"
proof (cases "exact_params artist song = []")
  case True
  then show ?thesis by (simp add: exact_lookup_def exact_strategy_def)
next
  case False
  let ?rq = "Request ApiGet (exact_params artist song)"
  from assms False obtain resp where resp: "http env sent ?rq = Inr resp"
    by (auto simp: exact_answered_def split: sum.splits)
  have ok: "\<exists>r. synced_lyrics resp = Inr r"
    using assms False resp
    by (simp add: exact_answered_def synced_lyrics_def resp_json_def
          split: payload.splits json.splits)
  then obtain r where r: "synced_lyrics resp = Inr r" ..
  have "Option.bind (answer env sent ?rq) (true_member ''syncedLyrics'') = r"
    using answer_member [of env sent ?rq, symmetric] resp r by simp
  then show ?thesis
    using False resp r by (simp add: exact_lookup_def exact_strategy_def requests_get_def)
qed

text \<open>
  C8 (as amended). When the exact lookup raises nothing, \<open>search_lrclib\<close> is the
  first success of its strategies in their fixed order: the exact \<open>/api/get\<close>
  lookup, made when song or artist is not empty, with \<open>track_name\<close> and
  \<open>artist_name\<close> for those that are not empty; then the search by artist and track
  name and the free-text search for artist and song (both only when neither is empty),
  then the free-text search for the song alone (when it is not empty). A search that is
  answered with status 200 and a list whose first candidate is an object with a true
  \<open>id\<close> is followed by a lookup of that identifier. A lookup succeeds exactly when it
  is answered with status 200 and an object whose \<open>syncedLyrics\<close> is true, and that
  value is returned; every other outcome of a search or of the lookup after it, an
  exception included, counts as absence, and the next strategy runs.
\<close>

theorem search_lrclib_strategies:
  "(exact_answered env artist song sent \<longrightarrow>
      search_lrclib env artist song sent =
        (Inr (fst (first_success
                     (exact_strategy env artist song #
                      map (search_strategy env) (queries artist song)) sent)),
         snd (first_success
                (exact_strategy env artist song #
                 map (search_strategy env) (queries artist song)) sent))) \<and>
   queries artist song =
     (if artist \<noteq> [] \<and> song \<noteq> []
      then [[(''artist_name'', artist), (''track_name'', song)],
            [(''q'', artist @ '' '' @ song)],
            [(''q'', song)]]
      else if song \<noteq> [] then [[(''q'', song)]] else [])"
proof (intro conjI impI)
  assume ok: "exact_answered env artist song sent"
  obtain r sent1 where e: "exact_strategy env artist song sent = (r, sent1)"
    by (cases "exact_strategy env artist song sent")
  have x: "exact_lookup env artist song sent = (Inr r, sent1)"
    using exact_lookup_strategy [OF ok] e by simp
  show "search_lrclib env artist song sent =
        (Inr (fst (first_success
                     (exact_strategy env artist song #
                      map (search_strategy env) (queries artist song)) sent)),
         snd (first_success
                (exact_strategy env artist song #
                 map (search_strategy env) (queries artist song)) sent))"
  proof (cases r)
    case None
    then show ?thesis
      using x e
      by (simp add: search_lrclib_def search_try_def search_loop_strategies split: prod.splits)
  next
    case (Some v)
    then show ?thesis
      using x e by (simp add: search_lrclib_def search_try_def)
  qed
next
  show "queries artist song =
     (if artist \<noteq> [] \<and> song \<noteq> []
      then [[(''artist_name'', artist), (''track_name'', song)],
            [(''q'', artist @ '' '' @ song)],
            [(''q'', song)]]
      else if song \<noteq> [] then [[(''q'', song)]] else [])"
    by (simp add: queries_def)
qed

theorem search_lrclib_strategies_witness:
  "exact_answered (candidates_only (JNum 7)) ''Artist'' ''Song'' [] \<and>
   search_lrclib (candidates_only (JNum 7)) ''Artist'' ''Song'' [] =
     (Inr (Some (JStr lrc_sample)),
      [Request ApiGet [(''track_name'', ''Song''), (''artist_name'', ''Artist'')],
       Request ApiSearch [(''artist_name'', ''Artist''), (''track_name'', ''Song'')],
       Request (ApiGetId (JNum 7)) []])"
proof -
  let ?env = "candidates_only (JNum 7)"
  have a: "exact_answered ?env ''Artist'' ''Song'' []"
    by code_simp
  have b: "first_success
             (exact_strategy ?env ''Artist'' ''Song'' #
              map (search_strategy ?env) (queries ''Artist'' ''Song'')) [] =
     (Some (JStr lrc_sample),
      [Request ApiGet [(''track_name'', ''Song''), (''artist_name'', ''Artist'')],
       Request ApiSearch [(''artist_name'', ''Artist''), (''track_name'', ''Song'')],
       Request (ApiGetId (JNum 7)) []])"
    by code_simp
  from search_lrclib_strategies [of ?env "''Artist''" "''Song''" "[]"] a
  have "search_lrclib ?env ''Artist'' ''Song'' [] =
        (Inr (fst (first_success
                     (exact_strategy ?env ''Artist'' ''Song'' #
                      map (search_strategy ?env) (queries ''Artist'' ''Song'')) [])),
         snd (first_success
                (exact_strategy ?env ''Artist'' ''Song'' #
                 map (search_strategy ?env) (queries ''Artist'' ''Song'')) []))"
    by blast
  then show ?thesis using a unfolding b by simp
qed

text \<open>
  The claim as written has every search that returns a candidate list that is not empty
  followed by a lookup of the first candidate's identifier. Here every search is answered
  with one candidate whose \<open>id\<close> is 0: the guard on the identifier skips the lookup,
  and the four requests are the exact lookup and the three searches.
\<close>

theorem search_lrclib_no_fetch_counterexample:
  "http (candidates_only (JNum 0))
     [Request ApiGet [(''track_name'', ''Song''), (''artist_name'', ''Artist'')]]
     (Request ApiSearch [(''artist_name'', ''Artist''), (''track_name'', ''Song'')]) =
     Inr (Response 200 (Json (JArr [JObj [(''id'', JNum 0)]]))) \<and>
   search_lrclib (candidates_only (JNum 0)) ''Artist'' ''Song'' [] =
     (Inr None,
      [Request ApiGet [(''track_name'', ''Song''), (''artist_name'', ''Artist'')],
       Request ApiSearch [(''artist_name'', ''Artist''), (''track_name'', ''Song'')],
       Request ApiSearch [(''q'', ''Artist Song'')],
       Request ApiSearch [(''q'', ''Song'')]])"
  by code_simp

text \<open>
  An exception in the exact lookup is not part of the statement above: it leaves the
  \<open>try\<close> block, and the call returns nothing without any search.
\<close>

lemma search_lrclib_exact_raises:
  "search_lrclib (offline []) ''Artist'' ''Song'' [] =
     (Inr None, [Request ApiGet [(''track_name'', ''Song''), (''artist_name'', ''Artist'')]])"
  by code_simp

section \<open>Properties of the matcher\<close>

















section \<open>Decoding lines\<close>
















section \<open>Timestamps with fractions of any length\<close>











section \<open>Cleaning a title twice\<close>











lemma contains_Cons: "contains sub s \<Longrightarrow> contains sub (c # s)"
  by simp






















end
